theory Spec2Isabelle
  imports Main
begin

section \<open>Data model of atom/renderer/atom\_renderer\_client.cc\<close>

text \<open>
  A script context and a runtime environment are known to the bridge only by their handle
  (\<^verbatim>\<open>v8::Handle<v8::Context>\<close>, \<^verbatim>\<open>node::Environment*\<close>), compared by identity. A
  possibly null \<^verbatim>\<open>node::Environment*\<close> is an \<open>env option\<close>, \<open>None\<close> being
  \<^verbatim>\<open>nullptr\<close>.
\<close>

type_synonym script_context = nat
type_synonym env = nat

text \<open>
  What the bridge reads of a \<^verbatim>\<open>content::RenderFrame\<close> at the time of a callback:
  \<^verbatim>\<open>IsMainFrame()\<close>, the scheme of \<^verbatim>\<open>GetWebFrame()->document().url()\<close> as
  \<^verbatim>\<open>GURL\<close> holds it, and \<^verbatim>\<open>document().getSecurityOrigin()\<close>.
\<close>

record render_frame =
  frame_id :: nat
  IsMainFrame :: bool
  document_url_scheme :: string
  document_security_origin :: string

text \<open>The enums \<^verbatim>\<open>World\<close> and \<^verbatim>\<open>ExtensionGroup\<close>; a world id is a C++ \<^verbatim>\<open>int\<close> that is
  only compared, never computed with.\<close>

definition MAIN_WORLD :: int where
  "MAIN_WORLD = 0"

definition ISOLATED_WORLD :: int where
  "ISOLATED_WORLD = 999"

definition MAIN_GROUP :: int where
  "MAIN_GROUP = 1"

text \<open>The values \<^verbatim>\<open>mate::Dictionary::Set\<close> stores here, and a script object as its
  properties in insertion order.\<close>

datatype v8_value = V8String string | V8Boolean bool

type_synonym v8_object = "(string \<times> v8_value) list"

fun Dictionary_Set :: "string \<Rightarrow> v8_value \<Rightarrow> v8_object \<Rightarrow> v8_object" where
  "Dictionary_Set k v [] = [(k, v)]"
| "Dictionary_Set k v (p # ps) =
     (if fst p = k then (k, v) # ps else p # Dictionary_Set k v ps)"

text \<open>
  Every call the bridge makes into the host engine, the embedded runtime and the
  extended-binding registry, in the order the source makes it.
\<close>

datatype effect =
    NodeBindings_Initialize
  | NodeBindings_PrepareMessageLoop
  | NodeBindings_CreateEnvironment script_context env
  | AtomBindings_BindTo env
  | AddRenderBindings env
  | NodeBindings_LoadEnvironment env
  | NodeBindings_RunMessageLoop
  | EmitEvent env string
  | node_FreeEnvironment "env option"
  | AtomBindings_EnvironmentDestroyed "env option"
  | WebFrame_setIsolatedWorldHumanReadableName nat int string
  | WebFrame_setIsolatedWorldSecurityOrigin nat int string
  | WebFrame_executeScriptInIsolatedWorld nat int "string list" int
  | WebFrame_executeScript nat string
  | Script_Compile string
  | Script_Run script_context
  | Object_New
  | api_Initialize script_context
  | Function_Call script_context "v8_object list"
  | WebWorkerObserver_ContextCreated script_context
  | WebWorkerObserver_ContextWillDestroy script_context

subsection \<open>Process-wide configuration\<close>

text \<open>
  \<^verbatim>\<open>base::CommandLine::ForCurrentProcess()\<close>: each switch that was supplied, with the
  value \<^verbatim>\<open>GetSwitchValueASCII\<close> reports for it.
\<close>

type_synonym command_line = "string \<rightharpoonup> string"

definition HasSwitch :: "command_line \<Rightarrow> string \<Rightarrow> bool" where
  "HasSwitch cl k = (cl k \<noteq> None)"

definition GetSwitchValueASCII :: "command_line \<Rightarrow> string \<Rightarrow> string" where
  "GetSwitchValueASCII cl k = (case cl k of None \<Rightarrow> [] | Some v \<Rightarrow> v)"

text \<open>
  Modelled from the spec: the switch names of atom/common/options\_switches.h, which is
  not under src/. The spec lists the process-wide flags \<^verbatim>\<open>guest-instance-id\<close>,
  \<^verbatim>\<open>opener-id\<close>, \<^verbatim>\<open>hidden-page\<close>, \<^verbatim>\<open>context-isolation\<close> and
  \<^verbatim>\<open>node-integration-in-worker\<close>.
\<close>

definition switches_kGuestInstanceID :: string where
  "switches_kGuestInstanceID = ''guest-instance-id''"

definition switches_kOpenerID :: string where
  "switches_kOpenerID = ''opener-id''"

definition switches_kHiddenPage :: string where
  "switches_kHiddenPage = ''hidden-page''"

definition switches_kContextIsolation :: string where
  "switches_kContextIsolation = ''context-isolation''"

definition switches_kNodeIntegrationInWorker :: string where
  "switches_kNodeIntegrationInWorker = ''node-integration-in-worker''"

text \<open>
  Modelled from the spec: the two property names \<^verbatim>\<open>options::kGuestInstanceID\<close> and
  \<^verbatim>\<open>options::kOpenerID\<close> of atom/common/options\_switches.h, which is not under src/.
  The spec calls them the guest-instance id and the opener id of the binding object; they
  are written here in the spelling of the literal \<^verbatim>\<open>"hiddenPage"\<close> the source sets
  beside them.
\<close>

definition options_kGuestInstanceID :: string where
  "options_kGuestInstanceID = ''guestInstanceId''"

definition options_kOpenerID :: string where
  "options_kOpenerID = ''openerId''"

subsection \<open>State of the renderer process\<close>

text \<open>
  \<open>isolated_world\<close> and \<open>node_integration_initialized\<close> are the members of
  \<^verbatim>\<open>AtomRendererClient\<close>; \<open>uv_env\<close> is the default environment held by its
  \<^verbatim>\<open>NodeBindings\<close>; \<open>environments\<close> is the embedded runtime's own registry, read by
  \<^verbatim>\<open>node::Environment::GetCurrent\<close>; \<open>next_environment\<close> is the handle the next
  created environment receives; \<open>isolated_bundle_data\<close> is the generated byte array
  \<^verbatim>\<open>node::isolated_bundle_data\<close>.
\<close>

record renderer_process =
  command_line_of :: command_line
  isolated_bundle_data :: string
  isolated_world :: bool
  node_integration_initialized :: bool
  uv_env :: "env option"
  environments :: "script_context \<rightharpoonup> env"
  next_environment :: env

text \<open>The constructor: the latch starts cleared, isolated mode is read once from the
  command line, no environment exists and none is default.\<close>

definition AtomRendererClient :: "command_line \<Rightarrow> string \<Rightarrow> renderer_process" where
  "AtomRendererClient cl bundle =
     \<lparr>command_line_of = cl,
      isolated_bundle_data = bundle,
      isolated_world = HasSwitch cl switches_kContextIsolation,
      node_integration_initialized = False,
      uv_env = None,
      environments = Map.empty,
      next_environment = 0\<rparr>"

text \<open>
  Modelled from the spec: \<^verbatim>\<open>NodeBindings::CreateEnvironment\<close>,
  \<^verbatim>\<open>node::Environment::GetCurrent\<close> and \<^verbatim>\<open>node::FreeEnvironment\<close> belong to
  atom/common/node\_bindings.cc and to the embedded runtime, neither under src/. The spec
  has one environment per qualifying script context, created bound to the context,
  found again by exact context-handle equality, and destroyed on release. Creation hands
  out a fresh handle; freeing the null handle leaves the registry as it is.
\<close>

definition CreateEnvironment :: "renderer_process \<Rightarrow> script_context \<Rightarrow> env \<times> renderer_process" where
  "CreateEnvironment s c =
     (next_environment s,
      s\<lparr>environments := (environments s)(c \<mapsto> next_environment s),
        next_environment := Suc (next_environment s)\<rparr>)"

definition Environment_GetCurrent :: "renderer_process \<Rightarrow> script_context \<Rightarrow> env option" where
  "Environment_GetCurrent s c = environments s c"

definition FreeEnvironment :: "renderer_process \<Rightarrow> env option \<Rightarrow> renderer_process" where
  "FreeEnvironment s eo =
     (case eo of
        None \<Rightarrow> s
      | Some e \<Rightarrow>
          s\<lparr>environments :=
              (\<lambda>c. if environments s c = Some e then None else environments s c)\<rparr>)"

section \<open>AtomRenderFrameObserver: world selection and the isolated-world bootstrap\<close>

definition IsMainWorld :: "int \<Rightarrow> bool" where
  "IsMainWorld world_id = (world_id = MAIN_WORLD)"

definition IsIsolatedWorld :: "int \<Rightarrow> bool" where
  "IsIsolatedWorld world_id = (world_id = ISOLATED_WORLD)"

definition ShouldNotifyClient :: "renderer_process \<Rightarrow> render_frame \<Rightarrow> int \<Rightarrow> bool" where
  "ShouldNotifyClient s fr world_id =
     (if isolated_world s \<and> IsMainFrame fr then IsIsolatedWorld world_id
      else IsMainWorld world_id)"

definition CreateIsolatedWorldContext :: "render_frame \<Rightarrow> effect list" where
  "CreateIsolatedWorldContext fr =
     [WebFrame_setIsolatedWorldHumanReadableName (frame_id fr) ISOLATED_WORLD
        ''Electron Isolated Context'',
      WebFrame_setIsolatedWorldSecurityOrigin (frame_id fr) ISOLATED_WORLD
        (document_security_origin fr),
      WebFrame_executeScriptInIsolatedWorld (frame_id fr) ISOLATED_WORLD
        [''void 0''] MAIN_GROUP]"

text \<open>The wrapper source: the bundle between a function head and its closing brace, each
  on a line of its own.\<close>

definition bundle_wrapper :: "string \<Rightarrow> string" where
  "bundle_wrapper bundle =
     ''(function (binding, require) {'' @ [CHR 0x0A] @ bundle @ [CHR 0x0A] @ ''})''"

text \<open>
  The properties \<^verbatim>\<open>SetupMainWorldOverrides\<close> writes on the fresh binding object, in
  source order. What \<^verbatim>\<open>api::Initialize\<close> (atom/renderer/api, not under src/) itself
  installs on the object is left to that call, which appears as an effect. The effects
  are those of a bundle that compiles and runs; one that does not ends the callback
  inside the script engine (\<^verbatim>\<open>ToLocalChecked\<close>).
\<close>

definition binding_flags :: "command_line \<Rightarrow> v8_object" where
  "binding_flags cl =
     (let d0 = [];
          d1 = (if HasSwitch cl switches_kGuestInstanceID
                then Dictionary_Set options_kGuestInstanceID
                       (V8String (GetSwitchValueASCII cl switches_kGuestInstanceID)) d0
                else d0);
          d2 = (if HasSwitch cl switches_kOpenerID
                then Dictionary_Set options_kOpenerID
                       (V8String (GetSwitchValueASCII cl switches_kOpenerID)) d1
                else d1)
      in Dictionary_Set ''hiddenPage'' (V8Boolean (HasSwitch cl switches_kHiddenPage)) d2)"

definition SetupMainWorldOverrides :: "renderer_process \<Rightarrow> script_context \<Rightarrow> effect list" where
  "SetupMainWorldOverrides s c =
     [Script_Compile (bundle_wrapper (isolated_bundle_data s)),
      Script_Run c,
      Object_New,
      api_Initialize c,
      Function_Call c [binding_flags (command_line_of s)]]"

section \<open>AtomRendererClient: the environment lifecycle\<close>

definition IsDevToolsExtension :: "render_frame \<Rightarrow> bool" where
  "IsDevToolsExtension fr = (document_url_scheme fr = ''chrome-extension'')"

definition DidClearWindowObject :: "renderer_process \<Rightarrow> render_frame \<Rightarrow> effect list \<times> renderer_process" where
  "DidClearWindowObject s fr = ([WebFrame_executeScript (frame_id fr) ''void 0''], s)"

definition RunScriptsAtDocumentStart :: "renderer_process \<Rightarrow> render_frame \<Rightarrow> effect list \<times> renderer_process" where
  "RunScriptsAtDocumentStart s fr =
     (case uv_env s of
        Some e \<Rightarrow> ([EmitEvent e ''document-start''], s)
      | None \<Rightarrow> ([], s))"

definition RunScriptsAtDocumentEnd :: "renderer_process \<Rightarrow> render_frame \<Rightarrow> effect list \<times> renderer_process" where
  "RunScriptsAtDocumentEnd s fr =
     (case uv_env s of
        Some e \<Rightarrow> ([EmitEvent e ''document-end''], s)
      | None \<Rightarrow> ([], s))"

definition AtomRendererClient_DidCreateScriptContext ::
  "renderer_process \<Rightarrow> script_context \<Rightarrow> render_frame \<Rightarrow> effect list \<times> renderer_process" where
  "AtomRendererClient_DidCreateScriptContext s c fr =
     (if \<not> IsMainFrame fr \<and> \<not> IsDevToolsExtension fr then ([], s)
      else
        let (es1, s1) =
              (if \<not> node_integration_initialized s
               then ([NodeBindings_Initialize, NodeBindings_PrepareMessageLoop],
                     s\<lparr>node_integration_initialized := True\<rparr>)
               else ([], s));
            (e, s2) = CreateEnvironment s1 c;
            es2 = [NodeBindings_CreateEnvironment c e, AtomBindings_BindTo e,
                   AddRenderBindings e, NodeBindings_LoadEnvironment e];
            (es3, s3) =
              (if uv_env s2 = None
               then ([NodeBindings_RunMessageLoop], s2\<lparr>uv_env := Some e\<rparr>)
               else ([], s2))
        in (es1 @ es2 @ es3, s3))"

definition AtomRendererClient_WillReleaseScriptContext ::
  "renderer_process \<Rightarrow> script_context \<Rightarrow> render_frame \<Rightarrow> effect list \<times> renderer_process" where
  "AtomRendererClient_WillReleaseScriptContext s c fr =
     (if \<not> IsMainFrame fr \<and> \<not> IsDevToolsExtension fr then ([], s)
      else
        let eo = Environment_GetCurrent s c;
            es1 = (case eo of Some e \<Rightarrow> [EmitEvent e ''exit''] | None \<Rightarrow> []);
            s1 = (if eo = uv_env s then s\<lparr>uv_env := None\<rparr> else s);
            s2 = FreeEnvironment s1 eo
        in (es1 @ [node_FreeEnvironment eo, AtomBindings_EnvironmentDestroyed eo], s2))"

text \<open>\<^verbatim>\<open>ShouldFork\<close>: the returned flag, and the value written to \<^verbatim>\<open>*send_referrer\<close>.\<close>

definition ShouldFork ::
  "nat \<Rightarrow> string \<Rightarrow> string \<Rightarrow> bool \<Rightarrow> bool \<Rightarrow> bool \<times> bool" where
  "ShouldFork frame url http_method is_initial_navigation is_server_redirect =
     (http_method = ''GET'', True)"

definition DidInitializeWorkerContextOnWorkerThread ::
  "renderer_process \<Rightarrow> script_context \<Rightarrow> effect list \<times> renderer_process" where
  "DidInitializeWorkerContextOnWorkerThread s c =
     (if HasSwitch (command_line_of s) switches_kNodeIntegrationInWorker
      then ([WebWorkerObserver_ContextCreated c], s) else ([], s))"

definition WillDestroyWorkerContextOnWorkerThread ::
  "renderer_process \<Rightarrow> script_context \<Rightarrow> effect list \<times> renderer_process" where
  "WillDestroyWorkerContextOnWorkerThread s c =
     (if HasSwitch (command_line_of s) switches_kNodeIntegrationInWorker
      then ([WebWorkerObserver_ContextWillDestroy c], s) else ([], s))"

subsection \<open>The per-frame observer's forwarding\<close>

definition AtomRenderFrameObserver_DidCreateScriptContext ::
  "renderer_process \<Rightarrow> render_frame \<Rightarrow> script_context \<Rightarrow> int \<Rightarrow> int \<Rightarrow> effect list \<times> renderer_process" where
  "AtomRenderFrameObserver_DidCreateScriptContext s fr c extension_group world_id =
     (let (es1, s1) =
            (if ShouldNotifyClient s fr world_id
             then AtomRendererClient_DidCreateScriptContext s c fr else ([], s));
          es2 =
            (if isolated_world s1 \<and> IsMainWorld world_id \<and> IsMainFrame fr
             then CreateIsolatedWorldContext fr @ SetupMainWorldOverrides s1 c else [])
      in (es1 @ es2, s1))"

definition AtomRenderFrameObserver_WillReleaseScriptContext ::
  "renderer_process \<Rightarrow> render_frame \<Rightarrow> script_context \<Rightarrow> int \<Rightarrow> effect list \<times> renderer_process" where
  "AtomRenderFrameObserver_WillReleaseScriptContext s fr c world_id =
     (if ShouldNotifyClient s fr world_id
      then AtomRendererClient_WillReleaseScriptContext s c fr else ([], s))"

subsection \<open>Host callbacks and their sequences\<close>

text \<open>
  The callbacks the host engine delivers, to the observer of a frame or to the client.
  They arrive serialized on the renderer's main sequence, so a process lifetime is a list
  of them.
\<close>

datatype host_event =
    OnDidClearWindowObject render_frame
  | OnDidCreateScriptContext render_frame script_context int int
  | OnWillReleaseScriptContext render_frame script_context int
  | OnRunScriptsAtDocumentStart render_frame
  | OnRunScriptsAtDocumentEnd render_frame
  | OnDidInitializeWorkerContext script_context
  | OnWillDestroyWorkerContext script_context

fun step :: "renderer_process \<Rightarrow> host_event \<Rightarrow> effect list \<times> renderer_process" where
  "step s (OnDidClearWindowObject fr) = DidClearWindowObject s fr"
| "step s (OnDidCreateScriptContext fr c g w) =
     AtomRenderFrameObserver_DidCreateScriptContext s fr c g w"
| "step s (OnWillReleaseScriptContext fr c w) =
     AtomRenderFrameObserver_WillReleaseScriptContext s fr c w"
| "step s (OnRunScriptsAtDocumentStart fr) = RunScriptsAtDocumentStart s fr"
| "step s (OnRunScriptsAtDocumentEnd fr) = RunScriptsAtDocumentEnd s fr"
| "step s (OnDidInitializeWorkerContext c) = DidInitializeWorkerContextOnWorkerThread s c"
| "step s (OnWillDestroyWorkerContext c) = WillDestroyWorkerContextOnWorkerThread s c"

fun run :: "renderer_process \<Rightarrow> host_event list \<Rightarrow> effect list \<times> renderer_process" where
  "run s [] = ([], s)"
| "run s (ev # evs) =
     (let (es, s1) = step s ev; (es', s2) = run s1 evs in (es @ es', s2))"

text \<open>A context-creation callback that the observer forwards and the client's frame guard
  lets through, for a process whose isolated mode is \<open>isolated\<close>.\<close>

fun qualifying_creation :: "bool \<Rightarrow> host_event \<Rightarrow> bool" where
  "qualifying_creation isolated (OnDidCreateScriptContext fr c g w) =
     ((if isolated \<and> IsMainFrame fr then IsIsolatedWorld w else IsMainWorld w)
      \<and> (IsMainFrame fr \<or> IsDevToolsExtension fr))"
| "qualifying_creation isolated ev = False"

subsection \<open>Sample inputs\<close>

text \<open>A top-level page, a framed extension page and an ordinary subframe; a process started
  without switches and one started with context isolation.\<close>

definition top_frame :: render_frame where
  "top_frame = \<lparr>frame_id = 1, IsMainFrame = True, document_url_scheme = ''https'',
                 document_security_origin = ''https://example.org''\<rparr>"

definition extension_subframe :: render_frame where
  "extension_subframe = \<lparr>frame_id = 2, IsMainFrame = False,
                          document_url_scheme = ''chrome-extension'',
                          document_security_origin = ''chrome-extension://abc''\<rparr>"

definition web_subframe :: render_frame where
  "web_subframe = \<lparr>frame_id = 3, IsMainFrame = False, document_url_scheme = ''https'',
                    document_security_origin = ''https://ads.example''\<rparr>"

definition no_switches :: command_line where
  "no_switches = Map.empty"

definition isolation_switches :: command_line where
  "isolation_switches = [''context-isolation'' \<mapsto> [], ''guest-instance-id'' \<mapsto> ''7'']"

definition plain_process :: renderer_process where
  "plain_process = AtomRendererClient no_switches ''bundle''"

definition isolated_process :: renderer_process where
  "isolated_process = AtomRendererClient isolation_switches ''bundle''"

text \<open>The calls that belong to the isolated-world bootstrap.\<close>

fun is_bootstrap_effect :: "effect \<Rightarrow> bool" where
  "is_bootstrap_effect (WebFrame_setIsolatedWorldHumanReadableName f w n) = True"
| "is_bootstrap_effect (WebFrame_setIsolatedWorldSecurityOrigin f w origin) = True"
| "is_bootstrap_effect (WebFrame_executeScriptInIsolatedWorld f w srcs g) = True"
| "is_bootstrap_effect (Script_Compile src) = True"
| "is_bootstrap_effect (Script_Run c) = True"
| "is_bootstrap_effect Object_New = True"
| "is_bootstrap_effect (api_Initialize c) = True"
| "is_bootstrap_effect (Function_Call c args) = True"
| "is_bootstrap_effect x = False"

section \<open>Closed forms of the callbacks\<close>

text \<open>The definitions to unfold when a callback is evaluated on a sample input.\<close>

lemmas sample_defs =
  top_frame_def extension_subframe_def web_subframe_def no_switches_def
  isolation_switches_def plain_process_def isolated_process_def AtomRendererClient_def

lemmas model_defs =
  AtomRendererClient_DidCreateScriptContext_def AtomRendererClient_WillReleaseScriptContext_def
  AtomRenderFrameObserver_DidCreateScriptContext_def
  AtomRenderFrameObserver_WillReleaseScriptContext_def
  CreateEnvironment_def Environment_GetCurrent_def FreeEnvironment_def
  ShouldNotifyClient_def IsMainWorld_def IsIsolatedWorld_def IsDevToolsExtension_def
  MAIN_WORLD_def ISOLATED_WORLD_def MAIN_GROUP_def HasSwitch_def GetSwitchValueASCII_def
  switches_kGuestInstanceID_def switches_kOpenerID_def switches_kHiddenPage_def
  switches_kContextIsolation_def switches_kNodeIntegrationInWorker_def
  options_kGuestInstanceID_def options_kOpenerID_def
  CreateIsolatedWorldContext_def SetupMainWorldOverrides_def binding_flags_def
  bundle_wrapper_def DidClearWindowObject_def RunScriptsAtDocumentStart_def
  RunScriptsAtDocumentEnd_def DidInitializeWorkerContextOnWorkerThread_def
  WillDestroyWorkerContextOnWorkerThread_def ShouldFork_def Let_def

text \<open>The client's two context callbacks, guard by guard, as the effects they make and the
  state they leave.\<close>

lemma client_create_rejected:
  "\<not> IsMainFrame fr \<Longrightarrow> \<not> IsDevToolsExtension fr \<Longrightarrow>
   AtomRendererClient_DidCreateScriptContext s c fr = ([], s)"
  by (simp add: AtomRendererClient_DidCreateScriptContext_def)

lemma client_create_effects:
  "IsMainFrame fr \<or> IsDevToolsExtension fr \<Longrightarrow>
   fst (AtomRendererClient_DidCreateScriptContext s c fr) =
     (if node_integration_initialized s then []
      else [NodeBindings_Initialize, NodeBindings_PrepareMessageLoop])
     @ [NodeBindings_CreateEnvironment c (next_environment s),
        AtomBindings_BindTo (next_environment s),
        AddRenderBindings (next_environment s),
        NodeBindings_LoadEnvironment (next_environment s)]
     @ (if uv_env s = None then [NodeBindings_RunMessageLoop] else [])"
  by (auto simp add: AtomRendererClient_DidCreateScriptContext_def CreateEnvironment_def)

lemma client_create_state:
  "IsMainFrame fr \<or> IsDevToolsExtension fr \<Longrightarrow>
   snd (AtomRendererClient_DidCreateScriptContext s c fr) =
     s\<lparr>node_integration_initialized := True,
       environments := (environments s)(c \<mapsto> next_environment s),
       next_environment := Suc (next_environment s),
       uv_env := (case uv_env s of None \<Rightarrow> Some (next_environment s) | Some d \<Rightarrow> Some d)\<rparr>"
  by (cases s) (auto simp add: AtomRendererClient_DidCreateScriptContext_def CreateEnvironment_def)

lemma client_release_rejected:
  "\<not> IsMainFrame fr \<Longrightarrow> \<not> IsDevToolsExtension fr \<Longrightarrow>
   AtomRendererClient_WillReleaseScriptContext s c fr = ([], s)"
  by (simp add: AtomRendererClient_WillReleaseScriptContext_def)

lemma client_release_effects:
  "IsMainFrame fr \<or> IsDevToolsExtension fr \<Longrightarrow>
   fst (AtomRendererClient_WillReleaseScriptContext s c fr) =
     (case environments s c of Some e \<Rightarrow> [EmitEvent e ''exit''] | None \<Rightarrow> [])
     @ [node_FreeEnvironment (environments s c),
        AtomBindings_EnvironmentDestroyed (environments s c)]"
  by (auto simp add: AtomRendererClient_WillReleaseScriptContext_def Environment_GetCurrent_def Let_def)

lemma client_release_uv_env:
  "IsMainFrame fr \<or> IsDevToolsExtension fr \<Longrightarrow>
   uv_env (snd (AtomRendererClient_WillReleaseScriptContext s c fr)) =
     (if environments s c = uv_env s then None else uv_env s)"
  by (auto simp add: AtomRendererClient_WillReleaseScriptContext_def Environment_GetCurrent_def
      FreeEnvironment_def Let_def split: option.splits)

lemma client_release_keeps:
  "isolated_world (snd (AtomRendererClient_WillReleaseScriptContext s c fr)) = isolated_world s
   \<and> node_integration_initialized (snd (AtomRendererClient_WillReleaseScriptContext s c fr))
       = node_integration_initialized s
   \<and> command_line_of (snd (AtomRendererClient_WillReleaseScriptContext s c fr)) = command_line_of s"
  by (auto simp add: AtomRendererClient_WillReleaseScriptContext_def Environment_GetCurrent_def
      FreeEnvironment_def Let_def split: option.splits)

lemma client_create_keeps:
  "isolated_world (snd (AtomRendererClient_DidCreateScriptContext s c fr)) = isolated_world s
   \<and> command_line_of (snd (AtomRendererClient_DidCreateScriptContext s c fr)) = command_line_of s
   \<and> isolated_bundle_data (snd (AtomRendererClient_DidCreateScriptContext s c fr))
       = isolated_bundle_data s"
  by (cases "IsMainFrame fr \<or> IsDevToolsExtension fr")
     (auto simp add: client_create_rejected client_create_state)

lemma observer_create_snd:
  "snd (AtomRenderFrameObserver_DidCreateScriptContext s fr c g w) =
     (if ShouldNotifyClient s fr w then snd (AtomRendererClient_DidCreateScriptContext s c fr)
      else s)"
  by (simp add: AtomRenderFrameObserver_DidCreateScriptContext_def case_prod_unfold Let_def)

lemma observer_create_fst:
  "fst (AtomRenderFrameObserver_DidCreateScriptContext s fr c g w) =
     (if ShouldNotifyClient s fr w then fst (AtomRendererClient_DidCreateScriptContext s c fr)
      else [])
     @ (if isolated_world s \<and> IsMainWorld w \<and> IsMainFrame fr
        then CreateIsolatedWorldContext fr @ SetupMainWorldOverrides s c else [])"
  by (simp add: AtomRenderFrameObserver_DidCreateScriptContext_def case_prod_unfold Let_def
      client_create_keeps SetupMainWorldOverrides_def)

lemma step_isolated_world: "isolated_world (snd (step s ev)) = isolated_world s"
  by (cases ev)
     (simp_all add: observer_create_snd client_create_keeps
       AtomRenderFrameObserver_WillReleaseScriptContext_def client_release_keeps
       DidClearWindowObject_def RunScriptsAtDocumentStart_def
       RunScriptsAtDocumentEnd_def DidInitializeWorkerContextOnWorkerThread_def
       WillDestroyWorkerContextOnWorkerThread_def split: option.splits)

lemma qualifying_creation_iff:
  "qualifying_creation (isolated_world s) (OnDidCreateScriptContext fr c g w) \<longleftrightarrow>
     ShouldNotifyClient s fr w \<and> (IsMainFrame fr \<or> IsDevToolsExtension fr)"
  by (simp add: ShouldNotifyClient_def)

lemma step_latch:
  "node_integration_initialized (snd (step s ev)) =
     (node_integration_initialized s \<or> qualifying_creation (isolated_world s) ev)"
proof (cases ev)
  case (OnDidCreateScriptContext fr c g w)
  show ?thesis
    unfolding OnDidCreateScriptContext step.simps qualifying_creation_iff observer_create_snd
    by (cases "IsMainFrame fr \<or> IsDevToolsExtension fr")
       (auto simp add: client_create_rejected client_create_state)
qed (simp_all add: AtomRenderFrameObserver_WillReleaseScriptContext_def client_release_keeps
       DidClearWindowObject_def RunScriptsAtDocumentStart_def
       RunScriptsAtDocumentEnd_def DidInitializeWorkerContextOnWorkerThread_def
       WillDestroyWorkerContextOnWorkerThread_def split: option.splits)

lemma step_count_Initialize:
  "count_list (fst (step s ev)) NodeBindings_Initialize =
     (if \<not> node_integration_initialized s \<and> qualifying_creation (isolated_world s) ev
      then 1 else 0)"
proof (cases ev)
  case (OnDidCreateScriptContext fr c g w)
  show ?thesis
    unfolding OnDidCreateScriptContext step.simps qualifying_creation_iff observer_create_fst
    by (cases "IsMainFrame fr \<or> IsDevToolsExtension fr")
       (auto simp add: client_create_rejected client_create_effects
          CreateIsolatedWorldContext_def SetupMainWorldOverrides_def)
next
  case (OnWillReleaseScriptContext fr c w)
  show ?thesis
    unfolding OnWillReleaseScriptContext step.simps
    by (cases "IsMainFrame fr \<or> IsDevToolsExtension fr")
       (auto simp add: AtomRenderFrameObserver_WillReleaseScriptContext_def
          client_release_rejected client_release_effects split: option.splits)
qed (simp_all add: DidClearWindowObject_def RunScriptsAtDocumentStart_def
       RunScriptsAtDocumentEnd_def DidInitializeWorkerContextOnWorkerThread_def
       WillDestroyWorkerContextOnWorkerThread_def split: option.splits)

lemma step_count_PrepareMessageLoop:
  "count_list (fst (step s ev)) NodeBindings_PrepareMessageLoop =
     (if \<not> node_integration_initialized s \<and> qualifying_creation (isolated_world s) ev
      then 1 else 0)"
proof (cases ev)
  case (OnDidCreateScriptContext fr c g w)
  show ?thesis
    unfolding OnDidCreateScriptContext step.simps qualifying_creation_iff observer_create_fst
    by (cases "IsMainFrame fr \<or> IsDevToolsExtension fr")
       (auto simp add: client_create_rejected client_create_effects
          CreateIsolatedWorldContext_def SetupMainWorldOverrides_def)
next
  case (OnWillReleaseScriptContext fr c w)
  show ?thesis
    unfolding OnWillReleaseScriptContext step.simps
    by (cases "IsMainFrame fr \<or> IsDevToolsExtension fr")
       (auto simp add: AtomRenderFrameObserver_WillReleaseScriptContext_def
          client_release_rejected client_release_effects split: option.splits)
qed (simp_all add: DidClearWindowObject_def RunScriptsAtDocumentStart_def
       RunScriptsAtDocumentEnd_def DidInitializeWorkerContextOnWorkerThread_def
       WillDestroyWorkerContextOnWorkerThread_def split: option.splits)

lemma run_Cons_fst: "fst (run s (ev # evs)) = fst (step s ev) @ fst (run (snd (step s ev)) evs)"
  by (simp add: case_prod_unfold Let_def)

lemma run_Cons_snd: "snd (run s (ev # evs)) = snd (run (snd (step s ev)) evs)"
  by (simp add: case_prod_unfold Let_def)

lemma run_isolated_world: "isolated_world (snd (run s evs)) = isolated_world s"
  by (induction evs arbitrary: s) (simp_all add: run_Cons_snd step_isolated_world del: run.simps(2))

lemma run_latch:
  "node_integration_initialized (snd (run s evs)) =
     (node_integration_initialized s \<or> (\<exists>ev\<in>set evs. qualifying_creation (isolated_world s) ev))"
  by (induction evs arbitrary: s)
     (auto simp add: run_Cons_snd step_isolated_world step_latch simp del: run.simps(2))

lemma run_count_Initialize:
  "count_list (fst (run s evs)) NodeBindings_Initialize =
     (if \<not> node_integration_initialized s
         \<and> (\<exists>ev\<in>set evs. qualifying_creation (isolated_world s) ev) then 1 else 0)"
proof (induction evs arbitrary: s)
  case Nil
  show ?case by simp
next
  case (Cons ev evs)
  show ?case
    unfolding run_Cons_fst count_list_append Cons.IH step_count_Initialize
      step_isolated_world step_latch
    by auto
qed

lemma run_count_PrepareMessageLoop:
  "count_list (fst (run s evs)) NodeBindings_PrepareMessageLoop =
     (if \<not> node_integration_initialized s
         \<and> (\<exists>ev\<in>set evs. qualifying_creation (isolated_world s) ev) then 1 else 0)"
proof (induction evs arbitrary: s)
  case Nil
  show ?case by simp
next
  case (Cons ev evs)
  show ?case
    unfolding run_Cons_fst count_list_append Cons.IH step_count_PrepareMessageLoop
      step_isolated_world step_latch
    by auto
qed

lemma step_uv_env_designated:
  "uv_env s = None \<Longrightarrow> uv_env (snd (step s ev)) \<noteq> None \<Longrightarrow>
   qualifying_creation (isolated_world s) ev"
proof (cases ev)
  case (OnDidCreateScriptContext fr c g w)
  assume "uv_env s = None" "uv_env (snd (step s ev)) \<noteq> None"
  then show ?thesis
    unfolding OnDidCreateScriptContext step.simps qualifying_creation_iff observer_create_snd
    by (cases "IsMainFrame fr \<or> IsDevToolsExtension fr")
       (auto simp add: client_create_rejected split: if_splits)
next
  case (OnWillReleaseScriptContext fr c w)
  assume "uv_env s = None" "uv_env (snd (step s ev)) \<noteq> None"
  then show ?thesis
    unfolding OnWillReleaseScriptContext step.simps
    by (cases "IsMainFrame fr \<or> IsDevToolsExtension fr")
       (auto simp add: AtomRenderFrameObserver_WillReleaseScriptContext_def
          client_release_rejected client_release_uv_env split: if_splits)
qed (auto simp add: DidClearWindowObject_def RunScriptsAtDocumentStart_def
       RunScriptsAtDocumentEnd_def DidInitializeWorkerContextOnWorkerThread_def
       WillDestroyWorkerContextOnWorkerThread_def split: option.splits if_splits)

lemma run_uv_env_designated:
  "uv_env s = None \<Longrightarrow> uv_env (snd (run s evs)) \<noteq> None \<Longrightarrow>
   \<exists>ev\<in>set evs. qualifying_creation (isolated_world s) ev"
proof (induction evs arbitrary: s)
  case Nil
  then show ?case by simp
next
  case (Cons ev evs)
  show ?case
  proof (cases "uv_env (snd (step s ev)) = None")
    case True
    with Cons.prems(2) have "uv_env (snd (run (snd (step s ev)) evs)) \<noteq> None"
      by (simp add: run_Cons_snd del: run.simps(2))
    from Cons.IH [OF True this] show ?thesis
      by (auto simp add: step_isolated_world)
  next
    case False
    with Cons.prems(1) have "qualifying_creation (isolated_world s) ev"
      by (rule step_uv_env_designated)
    then show ?thesis by simp
  qed
qed

lemma step_first_bootstrap:
  "\<not> node_integration_initialized s \<Longrightarrow> qualifying_creation (isolated_world s) ev \<Longrightarrow>
   take 2 (fst (step s ev)) = [NodeBindings_Initialize, NodeBindings_PrepareMessageLoop]"
proof (cases ev)
  case (OnDidCreateScriptContext fr c g w)
  assume "\<not> node_integration_initialized s" "qualifying_creation (isolated_world s) ev"
  then show ?thesis
    unfolding OnDidCreateScriptContext step.simps qualifying_creation_iff observer_create_fst
    by (simp add: client_create_effects)
qed simp_all

text \<open>Which callbacks make the calls of the isolated-world bootstrap.\<close>

lemma client_create_no_bootstrap:
  "\<forall>x\<in>set (fst (AtomRendererClient_DidCreateScriptContext s c fr)). \<not> is_bootstrap_effect x"
  by (cases "IsMainFrame fr \<or> IsDevToolsExtension fr")
     (auto simp add: client_create_rejected client_create_effects)

lemma client_release_no_bootstrap:
  "\<forall>x\<in>set (fst (AtomRendererClient_WillReleaseScriptContext s c fr)). \<not> is_bootstrap_effect x"
  by (cases "IsMainFrame fr \<or> IsDevToolsExtension fr")
     (auto simp add: client_release_rejected client_release_effects split: option.splits)

lemma step_bootstrap_iff:
  "(\<exists>x\<in>set (fst (step s ev)). is_bootstrap_effect x) \<longleftrightarrow>
   (\<exists>fr c g w. ev = OnDidCreateScriptContext fr c g w
      \<and> isolated_world s \<and> IsMainWorld w \<and> IsMainFrame fr)"
proof (cases ev)
  case (OnDidCreateScriptContext fr c g w)
  have "is_bootstrap_effect (hd (CreateIsolatedWorldContext fr))"
    by (simp add: CreateIsolatedWorldContext_def)
  moreover have "hd (CreateIsolatedWorldContext fr) \<in> set (CreateIsolatedWorldContext fr)"
    by (simp add: CreateIsolatedWorldContext_def)
  ultimately show ?thesis
    unfolding OnDidCreateScriptContext step.simps observer_create_fst
    using client_create_no_bootstrap [of s c fr]
    by (auto simp add: SetupMainWorldOverrides_def)
next
  case (OnWillReleaseScriptContext fr c w)
  show ?thesis
    unfolding OnWillReleaseScriptContext step.simps
    using client_release_no_bootstrap [of s c fr]
    by (auto simp add: AtomRenderFrameObserver_WillReleaseScriptContext_def)
qed (auto simp add: DidClearWindowObject_def RunScriptsAtDocumentStart_def
       RunScriptsAtDocumentEnd_def DidInitializeWorkerContextOnWorkerThread_def
       WillDestroyWorkerContextOnWorkerThread_def split: option.splits if_splits)


lemma map_of_Dictionary_Set: "map_of (Dictionary_Set k v ps) = (map_of ps)(k \<mapsto> v)"
  by (induction ps) auto

section \<open>The default environment\<close>

text \<open>
  C1. The default designation is the single optional handle \<open>uv_env\<close>, so at most one
  environment holds it. When \<open>DidCreateScriptContext\<close> passes its frame guard and no
  environment is default, the environment it creates becomes the default and the event
  pump is run once, as the last call. When an environment is already default it stays so
  and the pump is not run. When the context of the default environment is released, the
  designation is cleared. From a state with no default, a sequence of host callbacks can
  only end with a default if it contains a qualifying context creation.
\<close>

theorem C1_default_environment:
  "(IsMainFrame fr \<or> IsDevToolsExtension fr \<longrightarrow> uv_env s = None \<longrightarrow>
      uv_env (snd (AtomRendererClient_DidCreateScriptContext s c fr)) = Some (next_environment s)
      \<and> environments (snd (AtomRendererClient_DidCreateScriptContext s c fr)) c
          = Some (next_environment s)
      \<and> count_list (fst (AtomRendererClient_DidCreateScriptContext s c fr))
          NodeBindings_RunMessageLoop = 1
      \<and> last (fst (AtomRendererClient_DidCreateScriptContext s c fr))
          = NodeBindings_RunMessageLoop)
   \<and> (uv_env s = Some d \<longrightarrow>
      uv_env (snd (AtomRendererClient_DidCreateScriptContext s c fr)) = Some d
      \<and> NodeBindings_RunMessageLoop
          \<notin> set (fst (AtomRendererClient_DidCreateScriptContext s c fr)))
   \<and> (IsMainFrame fr \<or> IsDevToolsExtension fr \<longrightarrow>
      Environment_GetCurrent s c = Some d \<longrightarrow> uv_env s = Some d \<longrightarrow>
      uv_env (snd (AtomRendererClient_WillReleaseScriptContext s c fr)) = None)
   \<and> (uv_env s = None \<longrightarrow> uv_env (snd (run s evs)) \<noteq> None \<longrightarrow>
      (\<exists>ev\<in>set evs. qualifying_creation (isolated_world s) ev))"
proof (intro conjI impI)
  assume g: "IsMainFrame fr \<or> IsDevToolsExtension fr" and n: "uv_env s = None"
  show "uv_env (snd (AtomRendererClient_DidCreateScriptContext s c fr))
          = Some (next_environment s)"
    using n by (simp add: client_create_state [OF g])
  show "environments (snd (AtomRendererClient_DidCreateScriptContext s c fr)) c
          = Some (next_environment s)"
    by (simp add: client_create_state [OF g])
  show "count_list (fst (AtomRendererClient_DidCreateScriptContext s c fr))
          NodeBindings_RunMessageLoop = 1"
    using n by (simp add: client_create_effects [OF g])
  show "last (fst (AtomRendererClient_DidCreateScriptContext s c fr))
          = NodeBindings_RunMessageLoop"
    using n by (simp add: client_create_effects [OF g])
next
  assume d: "uv_env s = Some d"
  show "uv_env (snd (AtomRendererClient_DidCreateScriptContext s c fr)) = Some d"
    using d by (cases "IsMainFrame fr \<or> IsDevToolsExtension fr")
      (auto simp add: client_create_rejected client_create_state)
  show "NodeBindings_RunMessageLoop
          \<notin> set (fst (AtomRendererClient_DidCreateScriptContext s c fr))"
    using d by (cases "IsMainFrame fr \<or> IsDevToolsExtension fr")
      (auto simp add: client_create_rejected client_create_effects)
next
  assume g: "IsMainFrame fr \<or> IsDevToolsExtension fr"
    and "Environment_GetCurrent s c = Some d" "uv_env s = Some d"
  then show "uv_env (snd (AtomRendererClient_WillReleaseScriptContext s c fr)) = None"
    by (simp add: client_release_uv_env [OF g] Environment_GetCurrent_def)
next
  assume "uv_env s = None" "uv_env (snd (run s evs)) \<noteq> None"
  then show "\<exists>ev\<in>set evs. qualifying_creation (isolated_world s) ev"
    by (rule run_uv_env_designated)
qed

theorem C1_default_environment_witness:
  "IsMainFrame top_frame \<and> uv_env plain_process = None
   \<and> uv_env (snd (AtomRendererClient_DidCreateScriptContext plain_process 5 top_frame)) = Some 0
   \<and> count_list (fst (AtomRendererClient_DidCreateScriptContext plain_process 5 top_frame))
        NodeBindings_RunMessageLoop = 1
   \<and> uv_env (snd (AtomRendererClient_DidCreateScriptContext
        (snd (AtomRendererClient_DidCreateScriptContext plain_process 5 top_frame))
        6 extension_subframe)) = Some 0
   \<and> uv_env (snd (AtomRendererClient_WillReleaseScriptContext
        (snd (AtomRendererClient_DidCreateScriptContext plain_process 5 top_frame))
        5 top_frame)) = None
   \<and> uv_env (snd (run plain_process [OnDidCreateScriptContext top_frame 5 1 0])) = Some 0
   \<and> qualifying_creation (isolated_world plain_process) (OnDidCreateScriptContext top_frame 5 1 0)"
  using C1_default_environment [where s = plain_process and fr = top_frame and c = 5
      and evs = "[OnDidCreateScriptContext top_frame 5 1 0]"]
    C1_default_environment [where fr = extension_subframe and c = 6 and d = 0
      and s = "snd (AtomRendererClient_DidCreateScriptContext plain_process 5 top_frame)"]
    C1_default_environment [where fr = top_frame and c = 5 and d = 0
      and s = "snd (AtomRendererClient_DidCreateScriptContext plain_process 5 top_frame)"]
  by (simp add: sample_defs model_defs)

section \<open>The one-time runtime bootstrap\<close>

text \<open>
  C2. Over any sequence of host callbacks from the constructed client, \<open>Initialize\<close> and
  \<open>PrepareMessageLoop\<close> are each called once if the sequence holds a qualifying context
  creation and never otherwise. The first qualifying creation, met with the latch
  cleared, starts with these two calls and sets the latch; once the latch is set it stays
  set and neither call is made again.
\<close>

theorem C2_bootstrap_exactly_once:
  "count_list (fst (run (AtomRendererClient cl js) evs)) NodeBindings_Initialize =
     (if \<exists>ev\<in>set evs. qualifying_creation (HasSwitch cl switches_kContextIsolation) ev
      then 1 else 0)
   \<and> count_list (fst (run (AtomRendererClient cl js) evs)) NodeBindings_PrepareMessageLoop =
     (if \<exists>ev\<in>set evs. qualifying_creation (HasSwitch cl switches_kContextIsolation) ev
      then 1 else 0)
   \<and> (\<not> node_integration_initialized s \<longrightarrow> qualifying_creation (isolated_world s) ev \<longrightarrow>
        take 2 (fst (step s ev)) = [NodeBindings_Initialize, NodeBindings_PrepareMessageLoop]
        \<and> node_integration_initialized (snd (step s ev)))
   \<and> (node_integration_initialized s \<longrightarrow>
        node_integration_initialized (snd (run s evs))
        \<and> NodeBindings_Initialize \<notin> set (fst (run s evs))
        \<and> NodeBindings_PrepareMessageLoop \<notin> set (fst (run s evs)))"
proof (intro conjI impI)
  show "count_list (fst (run (AtomRendererClient cl js) evs)) NodeBindings_Initialize =
     (if \<exists>ev\<in>set evs. qualifying_creation (HasSwitch cl switches_kContextIsolation) ev
      then 1 else 0)"
    unfolding run_count_Initialize by (simp add: AtomRendererClient_def)
  show "count_list (fst (run (AtomRendererClient cl js) evs))
          NodeBindings_PrepareMessageLoop =
     (if \<exists>ev\<in>set evs. qualifying_creation (HasSwitch cl switches_kContextIsolation) ev
      then 1 else 0)"
    unfolding run_count_PrepareMessageLoop by (simp add: AtomRendererClient_def)
next
  assume "\<not> node_integration_initialized s" "qualifying_creation (isolated_world s) ev"
  then show "take 2 (fst (step s ev))
      = [NodeBindings_Initialize, NodeBindings_PrepareMessageLoop]"
    by (rule step_first_bootstrap)
next
  assume "qualifying_creation (isolated_world s) ev"
  then show "node_integration_initialized (snd (step s ev))"
    by (simp add: step_latch)
next
  assume l: "node_integration_initialized s"
  then show "node_integration_initialized (snd (run s evs))"
    by (simp add: run_latch)
  have "count_list (fst (run s evs)) NodeBindings_Initialize = 0"
    using l by (simp add: run_count_Initialize)
  then show "NodeBindings_Initialize \<notin> set (fst (run s evs))"
    by (simp add: count_list_0_iff)
  have "count_list (fst (run s evs)) NodeBindings_PrepareMessageLoop = 0"
    using l by (simp add: run_count_PrepareMessageLoop)
  then show "NodeBindings_PrepareMessageLoop \<notin> set (fst (run s evs))"
    by (simp add: count_list_0_iff)
qed

theorem C2_bootstrap_exactly_once_witness:
  "qualifying_creation (HasSwitch no_switches switches_kContextIsolation)
     (OnDidCreateScriptContext top_frame 5 1 0)
   \<and> count_list (fst (run (AtomRendererClient no_switches ''bundle'')
        [OnDidCreateScriptContext top_frame 5 1 0,
         OnDidCreateScriptContext extension_subframe 6 1 0,
         OnWillReleaseScriptContext top_frame 5 0,
         OnDidCreateScriptContext top_frame 7 1 0])) NodeBindings_Initialize = 1
   \<and> \<not> node_integration_initialized plain_process
   \<and> node_integration_initialized
       (snd (step plain_process (OnDidCreateScriptContext top_frame 5 1 0)))
   \<and> NodeBindings_Initialize \<notin> set (fst (run
        (snd (step plain_process (OnDidCreateScriptContext top_frame 5 1 0)))
        [OnDidCreateScriptContext extension_subframe 6 1 0]))"
  using C2_bootstrap_exactly_once [where cl = no_switches and js = "''bundle''"
      and evs = "[OnDidCreateScriptContext top_frame 5 1 0,
         OnDidCreateScriptContext extension_subframe 6 1 0,
         OnWillReleaseScriptContext top_frame 5 0,
         OnDidCreateScriptContext top_frame 7 1 0]"
      and s = plain_process and ev = "OnDidCreateScriptContext top_frame 5 1 0"]
    C2_bootstrap_exactly_once [where cl = no_switches and js = "''bundle''"
      and evs = "[OnDidCreateScriptContext extension_subframe 6 1 0]"
      and s = "snd (step plain_process (OnDidCreateScriptContext top_frame 5 1 0))"]
  by (simp add: sample_defs model_defs)

section \<open>World selection\<close>

text \<open>
  C3. For every isolated-mode flag, frame and world id, \<open>ShouldNotifyClient\<close> is true
  exactly when: with isolated mode on and the frame the main frame, the world id is the
  isolated world; in every other case the world id is the main world.
\<close>

theorem C3_ShouldNotifyClient_world_selection:
  "(isolated_world s \<and> IsMainFrame fr \<longrightarrow>
      (ShouldNotifyClient s fr world_id \<longleftrightarrow> world_id = ISOLATED_WORLD))
   \<and> (\<not> (isolated_world s \<and> IsMainFrame fr) \<longrightarrow>
      (ShouldNotifyClient s fr world_id \<longleftrightarrow> world_id = MAIN_WORLD))"
  by (simp add: ShouldNotifyClient_def IsIsolatedWorld_def IsMainWorld_def)

theorem C3_ShouldNotifyClient_world_selection_witness:
  "isolated_world isolated_process \<and> IsMainFrame top_frame
   \<and> ShouldNotifyClient isolated_process top_frame 999
   \<and> \<not> isolated_world plain_process
   \<and> ShouldNotifyClient plain_process top_frame 0"
  using C3_ShouldNotifyClient_world_selection [of isolated_process top_frame 999]
    C3_ShouldNotifyClient_world_selection [of plain_process top_frame 0]
  by (simp add: sample_defs model_defs)

section \<open>The isolated-world bootstrap\<close>

text \<open>
  C4. With isolated mode on, a main-world context created in the main frame is not
  forwarded to the client: the state, and so the environment registry, is as before and no
  environment is created for it. The callback instead names the isolated world, copies
  the document's security origin into it, runs \<open>void 0\<close> there, and compiles and runs
  the wrapped bundle in the created context with the binding object. Over all host
  callbacks, a call of this bootstrap is made exactly by a context creation for the main
  world in the main frame with isolated mode on.
\<close>

theorem C4_isolated_world_bootstrap:
  "(isolated_world s \<and> IsMainFrame fr \<longrightarrow>
      AtomRenderFrameObserver_DidCreateScriptContext s fr c g MAIN_WORLD =
        ([WebFrame_setIsolatedWorldHumanReadableName (frame_id fr) ISOLATED_WORLD
            ''Electron Isolated Context'',
          WebFrame_setIsolatedWorldSecurityOrigin (frame_id fr) ISOLATED_WORLD
            (document_security_origin fr),
          WebFrame_executeScriptInIsolatedWorld (frame_id fr) ISOLATED_WORLD
            [''void 0''] MAIN_GROUP,
          Script_Compile (bundle_wrapper (isolated_bundle_data s)),
          Script_Run c,
          Object_New,
          api_Initialize c,
          Function_Call c [binding_flags (command_line_of s)]], s))
   \<and> ((\<exists>x\<in>set (fst (step s ev)). is_bootstrap_effect x) \<longleftrightarrow>
       (\<exists>fr' c' g' w. ev = OnDidCreateScriptContext fr' c' g' w
          \<and> isolated_world s \<and> w = MAIN_WORLD \<and> IsMainFrame fr'))"
proof (intro conjI impI)
  assume "isolated_world s \<and> IsMainFrame fr"
  then show "AtomRenderFrameObserver_DidCreateScriptContext s fr c g MAIN_WORLD =
        ([WebFrame_setIsolatedWorldHumanReadableName (frame_id fr) ISOLATED_WORLD
            ''Electron Isolated Context'',
          WebFrame_setIsolatedWorldSecurityOrigin (frame_id fr) ISOLATED_WORLD
            (document_security_origin fr),
          WebFrame_executeScriptInIsolatedWorld (frame_id fr) ISOLATED_WORLD
            [''void 0''] MAIN_GROUP,
          Script_Compile (bundle_wrapper (isolated_bundle_data s)),
          Script_Run c,
          Object_New,
          api_Initialize c,
          Function_Call c [binding_flags (command_line_of s)]], s)"
    by (simp add: AtomRenderFrameObserver_DidCreateScriptContext_def ShouldNotifyClient_def
        IsIsolatedWorld_def IsMainWorld_def MAIN_WORLD_def ISOLATED_WORLD_def
        CreateIsolatedWorldContext_def SetupMainWorldOverrides_def)
next
  show "(\<exists>x\<in>set (fst (step s ev)). is_bootstrap_effect x) \<longleftrightarrow>
       (\<exists>fr' c' g' w. ev = OnDidCreateScriptContext fr' c' g' w
          \<and> isolated_world s \<and> w = MAIN_WORLD \<and> IsMainFrame fr')"
    unfolding step_bootstrap_iff by (simp add: IsMainWorld_def)
qed

theorem C4_isolated_world_bootstrap_witness:
  "isolated_world isolated_process \<and> IsMainFrame top_frame
   \<and> environments (snd (AtomRenderFrameObserver_DidCreateScriptContext
        isolated_process top_frame 5 1 MAIN_WORLD)) 5 = None
   \<and> length (fst (AtomRenderFrameObserver_DidCreateScriptContext
        isolated_process top_frame 5 1 MAIN_WORLD)) = 8
   \<and> is_bootstrap_effect (hd (fst (step isolated_process
        (OnDidCreateScriptContext top_frame 5 1 0))))"
  using C4_isolated_world_bootstrap [where s = isolated_process and fr = top_frame and c = 5
      and g = 1 and ev = "OnDidCreateScriptContext top_frame 5 1 0"]
  by (simp add: sample_defs model_defs)

section \<open>The frame guard of context creation\<close>

text \<open>
  C5. A context creation that reaches the client creates an environment, binds the extended
  APIs to it and loads it exactly when the frame is the main frame or its document URL has
  the scheme \<open>chrome-extension\<close>; for any other frame the callback makes no call and
  leaves the state as it is.
\<close>

theorem C5_environment_guard:
  "(IsMainFrame fr \<or> document_url_scheme fr = ''chrome-extension'' \<longrightarrow>
      fst (AtomRendererClient_DidCreateScriptContext s c fr) =
        (if node_integration_initialized s then []
         else [NodeBindings_Initialize, NodeBindings_PrepareMessageLoop])
        @ [NodeBindings_CreateEnvironment c (next_environment s),
           AtomBindings_BindTo (next_environment s),
           AddRenderBindings (next_environment s),
           NodeBindings_LoadEnvironment (next_environment s)]
        @ (if uv_env s = None then [NodeBindings_RunMessageLoop] else [])
      \<and> Environment_GetCurrent (snd (AtomRendererClient_DidCreateScriptContext s c fr)) c
          = Some (next_environment s))
   \<and> (\<not> IsMainFrame fr \<and> document_url_scheme fr \<noteq> ''chrome-extension'' \<longrightarrow>
      AtomRendererClient_DidCreateScriptContext s c fr = ([], s))
   \<and> ((\<exists>e. NodeBindings_CreateEnvironment c e
              \<in> set (fst (AtomRendererClient_DidCreateScriptContext s c fr)))
       \<longleftrightarrow> IsMainFrame fr \<or> document_url_scheme fr = ''chrome-extension'')"
proof (cases "IsMainFrame fr \<or> IsDevToolsExtension fr")
  case True
  show ?thesis
    using True
    by (auto simp add: client_create_effects [OF True] client_create_state [OF True]
        Environment_GetCurrent_def IsDevToolsExtension_def)
next
  case False
  then have "AtomRendererClient_DidCreateScriptContext s c fr = ([], s)"
    by (simp add: client_create_rejected)
  with False show ?thesis
    by (simp add: IsDevToolsExtension_def)
qed

theorem C5_environment_guard_witness:
  "\<not> IsMainFrame extension_subframe
   \<and> document_url_scheme extension_subframe = ''chrome-extension''
   \<and> Environment_GetCurrent
        (snd (AtomRendererClient_DidCreateScriptContext plain_process 6 extension_subframe)) 6
        = Some 0
   \<and> \<not> IsMainFrame web_subframe \<and> document_url_scheme web_subframe \<noteq> ''chrome-extension''
   \<and> AtomRendererClient_DidCreateScriptContext plain_process 7 web_subframe
        = ([], plain_process)"
  using C5_environment_guard [where s = plain_process and fr = extension_subframe and c = 6]
    C5_environment_guard [where s = plain_process and fr = web_subframe and c = 7]
  by (simp add: sample_defs model_defs)

section \<open>Releasing a context\<close>



text \<open>
  C7. A release that passes the frame guard always ends with the calls of
  \<open>node::FreeEnvironment\<close> and \<open>EnvironmentDestroyed\<close> on the handle the lookup
  returned, the null handle when no environment is bound; only the \<open>exit\<close> event and the
  clearing of the default designation depend on the lookup.
\<close>

theorem C7_teardown_calls_unconditional:
  "IsMainFrame fr \<or> IsDevToolsExtension fr \<Longrightarrow>
   fst (AtomRendererClient_WillReleaseScriptContext s c fr) =
     (case Environment_GetCurrent s c of Some e \<Rightarrow> [EmitEvent e ''exit''] | None \<Rightarrow> [])
     @ [node_FreeEnvironment (Environment_GetCurrent s c),
        AtomBindings_EnvironmentDestroyed (Environment_GetCurrent s c)]
   \<and> uv_env (snd (AtomRendererClient_WillReleaseScriptContext s c fr)) =
       (if Environment_GetCurrent s c = uv_env s then None else uv_env s)"
  by (simp add: client_release_effects client_release_uv_env Environment_GetCurrent_def)

theorem C7_teardown_calls_unconditional_witness:
  "IsMainFrame top_frame
   \<and> fst (AtomRendererClient_WillReleaseScriptContext plain_process 5 top_frame)
       = [node_FreeEnvironment None, AtomBindings_EnvironmentDestroyed None]
   \<and> fst (AtomRendererClient_WillReleaseScriptContext
        (snd (AtomRendererClient_DidCreateScriptContext plain_process 5 top_frame)) 5 top_frame)
       = [EmitEvent 0 ''exit'', node_FreeEnvironment (Some 0),
          AtomBindings_EnvironmentDestroyed (Some 0)]"
  using C7_teardown_calls_unconditional [where fr = top_frame and c = 5 and s = plain_process]
    C7_teardown_calls_unconditional [where fr = top_frame and c = 5
      and s = "snd (AtomRendererClient_DidCreateScriptContext plain_process 5 top_frame)"]
  by (simp add: sample_defs model_defs)

section \<open>The binding object of the bootstrap bundle\<close>

text \<open>
  C8. The binding object handed to the bundle has the guest-instance-id property exactly
  when the guest-instance-id switch was supplied, with the switch's string value; likewise
  the opener-id property; and it always has \<open>hiddenPage\<close>, set to whether the
  hidden-page switch was supplied.
\<close>

theorem C8_binding_flags:
  "map_of (binding_flags cl) options_kGuestInstanceID
     = (if HasSwitch cl switches_kGuestInstanceID
        then Some (V8String (GetSwitchValueASCII cl switches_kGuestInstanceID)) else None)
   \<and> map_of (binding_flags cl) options_kOpenerID
     = (if HasSwitch cl switches_kOpenerID
        then Some (V8String (GetSwitchValueASCII cl switches_kOpenerID)) else None)
   \<and> map_of (binding_flags cl) ''hiddenPage''
     = Some (V8Boolean (HasSwitch cl switches_kHiddenPage))
   \<and> last (SetupMainWorldOverrides s c) = Function_Call c [binding_flags (command_line_of s)]"
  by (simp add: binding_flags_def map_of_Dictionary_Set options_kGuestInstanceID_def
      options_kOpenerID_def SetupMainWorldOverrides_def Let_def)

theorem C8_binding_flags_witness:
  "HasSwitch isolation_switches switches_kGuestInstanceID
   \<and> \<not> HasSwitch isolation_switches switches_kOpenerID
   \<and> binding_flags isolation_switches
       = [(''guestInstanceId'', V8String ''7''), (''hiddenPage'', V8Boolean False)]
   \<and> map_of (binding_flags isolation_switches) options_kGuestInstanceID = Some (V8String ''7'')
   \<and> map_of (binding_flags isolation_switches) options_kOpenerID = None"
  using C8_binding_flags [where cl = isolation_switches]
  by (simp add: sample_defs model_defs)

section \<open>Navigation\<close>

text \<open>
  C9. For every frame, URL, method and pair of navigation flags, \<open>ShouldFork\<close> returns
  true exactly when the method is \<open>GET\<close>, and sets \<open>send_referrer\<close> to true in every
  case.
\<close>

theorem C9_ShouldFork:
  "fst (ShouldFork frame url http_method is_initial_navigation is_server_redirect)
     = (http_method = ''GET'')
   \<and> snd (ShouldFork frame url http_method is_initial_navigation is_server_redirect) = True"
  by (simp add: ShouldFork_def)

theorem C9_ShouldFork_witness:
  "ShouldFork 1 ''https://example.org/form'' ''POST'' False False = (False, True)
   \<and> ShouldFork 1 ''https://example.org/'' ''GET'' True False = (True, True)"
  using C9_ShouldFork [of 1 "''https://example.org/form''" "''POST''" False False]
    C9_ShouldFork [of 1 "''https://example.org/''" "''GET''" True False]
  by (simp add: prod_eq_iff)

section \<open>Document lifecycle hooks\<close>

text \<open>
  C10. \<open>RunScriptsAtDocumentStart\<close> and \<open>RunScriptsAtDocumentEnd\<close> emit
  \<open>document-start\<close> and \<open>document-end\<close> into the default environment exactly when
  there is one, make no other call, and return the state (latch, default designation,
  environment registry) unchanged.
\<close>

theorem C10_document_hooks:
  "RunScriptsAtDocumentStart s fr =
     ((case uv_env s of Some e \<Rightarrow> [EmitEvent e ''document-start''] | None \<Rightarrow> []), s)
   \<and> RunScriptsAtDocumentEnd s fr =
     ((case uv_env s of Some e \<Rightarrow> [EmitEvent e ''document-end''] | None \<Rightarrow> []), s)
   \<and> ((\<exists>e. EmitEvent e ''document-start'' \<in> set (fst (RunScriptsAtDocumentStart s fr)))
        \<longleftrightarrow> uv_env s \<noteq> None)
   \<and> ((\<exists>e. EmitEvent e ''document-end'' \<in> set (fst (RunScriptsAtDocumentEnd s fr)))
        \<longleftrightarrow> uv_env s \<noteq> None)"
  by (auto simp add: RunScriptsAtDocumentStart_def RunScriptsAtDocumentEnd_def
      split: option.splits)

theorem C10_document_hooks_witness:
  "RunScriptsAtDocumentStart plain_process top_frame = ([], plain_process)
   \<and> fst (RunScriptsAtDocumentEnd
        (snd (AtomRendererClient_DidCreateScriptContext plain_process 5 top_frame)) top_frame)
       = [EmitEvent 0 ''document-end'']
   \<and> snd (RunScriptsAtDocumentEnd
        (snd (AtomRendererClient_DidCreateScriptContext plain_process 5 top_frame)) top_frame)
       = snd (AtomRendererClient_DidCreateScriptContext plain_process 5 top_frame)"
  using C10_document_hooks [where s = plain_process and fr = top_frame]
    C10_document_hooks [where fr = top_frame
      and s = "snd (AtomRendererClient_DidCreateScriptContext plain_process 5 top_frame)"]
  by (simp add: sample_defs model_defs)

end
